theory Spec2Isabelle
  imports Complex_Main "HOL-Library.Word"
begin

section \<open>Text\<close>

text \<open>
  A Python \<open>str\<close> is a sequence of Unicode code points, so text is modelled as a list of
  code points (natural numbers below \<open>0x110000\<close>). \<open>lit\<close> turns an ASCII literal of the
  source into such a list.
\<close>

type_synonym pystr = "nat list"

definition lit :: "string \<Rightarrow> pystr" where
  "lit s = map of_char s"

definition TAB :: nat where "TAB = 9"
definition LF :: nat where "LF = 10"
definition CR :: nat where "CR = 13"

text \<open>The exceptions of the source that the model distinguishes.\<close>

datatype py_error = IndexError | ValueError | TypeError | OverflowError | UnicodeEncodeError | OSError

text \<open>\<open>str.isspace\<close> on one code point: the characters that \<open>str.strip()\<close> removes.\<close>

definition py_isspace :: "nat \<Rightarrow> bool" where
  "py_isspace c \<longleftrightarrow>
     (9 \<le> c \<and> c \<le> 13) \<or> (28 \<le> c \<and> c \<le> 32) \<or> c = 133 \<or> c = 160 \<or> c = 5760 \<or>
     (8192 \<le> c \<and> c \<le> 8202) \<or> c = 8232 \<or> c = 8233 \<or> c = 8239 \<or> c = 8287 \<or> c = 12288"

definition lstrip :: "pystr \<Rightarrow> pystr" where
  "lstrip s = dropWhile py_isspace s"

definition rstrip :: "pystr \<Rightarrow> pystr" where
  "rstrip s = rev (dropWhile py_isspace (rev s))"

definition strip :: "pystr \<Rightarrow> pystr" where
  "strip s = rstrip (lstrip s)"

text \<open>\<open>s.split(sep)\<close> for a separator of one character: never returns the empty list.\<close>

fun split_on :: "nat \<Rightarrow> pystr \<Rightarrow> pystr list" where
  "split_on sep [] = [[]]"
| "split_on sep (c # cs) =
     (if c = sep then [] # split_on sep cs
      else (case split_on sep cs of
              [] \<Rightarrow> [[c]]
            | w # ws \<Rightarrow> (c # w) # ws))"

text \<open>\<open>sep.join(parts)\<close> for a separator of one character.\<close>

fun join :: "nat \<Rightarrow> pystr list \<Rightarrow> pystr" where
  "join sep [] = []"
| "join sep [p] = p"
| "join sep (p # q # ps) = p @ sep # join sep (q # ps)"

text \<open>
  \<open>str(n)\<close> for a natural number: its decimal digits. \<open>zfill\<close> pads with zeros on the
  left, as the two- and four-digit fields of \<open>strftime\<close> do.
\<close>

fun str_nat :: "nat \<Rightarrow> pystr" where
  "str_nat n = (if n < 10 then [48 + n] else str_nat (n div 10) @ [48 + n mod 10])"

declare str_nat.simps [simp del]

definition zfill :: "nat \<Rightarrow> pystr \<Rightarrow> pystr" where
  "zfill width s = replicate (width - length s) 48 @ s"

lemma length_str_nat: "n < 10 ^ k \<Longrightarrow> 0 < k \<Longrightarrow> length (str_nat n) \<le> k"
proof (induction k arbitrary: n)
  case 0
  then show ?case by simp
next
  case (Suc k)
  show ?case
  proof (cases "n < 10")
    case True
    then show ?thesis by (subst str_nat.simps) simp
  next
    case False
    with Suc.prems have k: "0 < k" by (cases k) auto
    from Suc.prems have "n div 10 < 10 ^ k" by (simp add: less_mult_imp_div_less mult.commute)
    from Suc.IH[OF this k] False show ?thesis by (subst str_nat.simps) simp
  qed
qed

lemma length_zfill: "length s \<le> width \<Longrightarrow> length (zfill width s) = width"
  by (simp add: zfill_def)

section \<open>Encoding resolver: the first loop of \<open>load_file_fast\<close>\<close>

type_synonym byte = "8 word"

datatype encoding = CP949 | EUC_KR | UTF8 | UTF8_SIG | LATIN1 | CP1252

text \<open>
  What a codec does with the whole content of a file: the decoded text, or \<open>None\<close> for
  a \<open>UnicodeDecodeError\<close>. The codecs are Python's, not the repository's, so the
  resolver takes them as a parameter.
\<close>

type_synonym decoder = "encoding \<Rightarrow> byte list \<Rightarrow> pystr option"

definition encodings_to_try :: "encoding list" where
  "encodings_to_try = [CP949, EUC_KR, UTF8, UTF8_SIG, LATIN1, CP1252]"

text \<open>
  A file opened in text mode translates \<open>\r\n\<close> and \<open>\r\<close> to \<open>\n\<close>;
  \<open>readlines()\<close> cuts the text after every \<open>\n\<close> and keeps it at the end of the line.
\<close>

fun translate_newlines :: "pystr \<Rightarrow> pystr" where
  "translate_newlines [] = []"
| "translate_newlines [c] = [if c = CR then LF else c]"
| "translate_newlines (c # d # cs) =
     (if c = CR \<and> d = LF then LF # translate_newlines cs
      else if c = CR then LF # translate_newlines (d # cs)
      else c # translate_newlines (d # cs))"

fun readlines :: "pystr \<Rightarrow> pystr list" where
  "readlines [] = []"
| "readlines (c # cs) =
     (if c = LF then [LF] # readlines cs
      else (case readlines cs of
              [] \<Rightarrow> [[c]]
            | l # ls \<Rightarrow> (c # l) # ls))"

text \<open>\<^verbatim>\<open>[line.strip() for line in ... if line.strip()]\<close>\<close>

definition stripped_lines :: "pystr list \<Rightarrow> pystr list" where
  "stripped_lines ls = map strip (filter (\<lambda>line. strip line \<noteq> []) ls)"

text \<open>
  The loop over \<open>encodings_to_try\<close>: a candidate whose decoding raises is skipped
  (\<open>continue\<close>), the first one that decodes gives the lines and its name (\<open>break\<close>).
  \<open>None\<close> is the loop running out with \<open>lines\<close> still \<open>None\<close>.
\<close>

fun try_encodings ::
  "decoder \<Rightarrow> encoding list \<Rightarrow> byte list \<Rightarrow> (pystr list \<times> encoding) option"
where
  "try_encodings dec [] bs = None"
| "try_encodings dec (encoding # rest) bs =
     (case dec encoding bs of
        Some content \<Rightarrow> Some (stripped_lines (readlines (translate_newlines content)), encoding)
      | None \<Rightarrow> try_encodings dec rest bs)"

text \<open>
  The resolver: the lines and the encoding stored in \<open>self.file_encoding\<close>. When no
  candidate decodes, the bytes are decoded by \<open>decode_replace\<close>, which stands for
  \<^verbatim>\<open>.decode('utf-8', errors='replace')\<close>, the text is cut at \<open>\n\<close> and no encoding
  is recorded.
\<close>

definition read_lines ::
  "decoder \<Rightarrow> (byte list \<Rightarrow> pystr) \<Rightarrow> byte list \<Rightarrow> pystr list \<times> encoding option"
where
  "read_lines dec decode_replace bs =
     (case try_encodings dec encodings_to_try bs of
        Some (lines, encoding) \<Rightarrow> (lines, Some encoding)
      | None \<Rightarrow> (stripped_lines (split_on LF (decode_replace bs)), None))"

text \<open>
  Python's codecs: \<open>latin1\<close> maps every byte to the code point of the same number and
  never fails; the five other codecs are left to the parameter \<open>lib\<close>.
\<close>

definition py_decode :: "decoder \<Rightarrow> decoder" where
  "py_decode lib encoding bs =
     (if encoding = LATIN1 then Some (map unat bs) else lib encoding bs)"

lemma try_encodings_Some:
  "try_encodings dec encs bs = Some (lines, e) \<Longrightarrow>
   \<exists>i < length encs. encs ! i = e \<and> (\<forall>j < i. dec (encs ! j) bs = None) \<and>
     (\<exists>content. dec e bs = Some content \<and>
        lines = stripped_lines (readlines (translate_newlines content)))"
proof (induction encs)
  case Nil
  then show ?case by simp
next
  case (Cons a encs)
  show ?case
  proof (cases "dec a bs")
    case (Some t)
    with Cons.prems have "e = a" "lines = stripped_lines (readlines (translate_newlines t))"
      by auto
    with Some have "0 < length (a # encs) \<and> (a # encs) ! 0 = e \<and>
        (\<forall>j < 0. dec ((a # encs) ! j) bs = None) \<and>
        (\<exists>content. dec e bs = Some content \<and>
           lines = stripped_lines (readlines (translate_newlines content)))" by simp
    then show ?thesis by blast
  next
    case None
    with Cons.prems have "try_encodings dec encs bs = Some (lines, e)" by simp
    from Cons.IH[OF this] obtain i where
      i: "i < length encs" "encs ! i = e" "\<forall>j < i. dec (encs ! j) bs = None"
         "\<exists>content. dec e bs = Some content \<and>
            lines = stripped_lines (readlines (translate_newlines content))" by blast
    have "\<forall>j<Suc i. dec ((a # encs) ! j) bs = None"
      using i(3) None by (auto simp: less_Suc_eq_0_disj)
    with i have "Suc i < length (a # encs) \<and> (a # encs) ! Suc i = e \<and>
        (\<forall>j < Suc i. dec ((a # encs) ! j) bs = None) \<and>
        (\<exists>content. dec e bs = Some content \<and>
           lines = stripped_lines (readlines (translate_newlines content)))" by simp
    then show ?thesis by blast
  qed
qed

lemma try_encodings_None:
  "try_encodings dec encs bs = None \<longleftrightarrow> (\<forall>e \<in> set encs. dec e bs = None)"
  by (induction encs) (auto split: option.splits)

text \<open>
  Claim C4. For every content of the file and whatever the codecs do, the resolver
  returns lines of text (it has no failing outcome: every decode error is caught). The
  candidates are cp949, euc-kr, utf-8, utf-8-sig, latin1, cp1252 in this order. If it
  reports an encoding, that is a candidate that decodes the content, every candidate
  before it in the list fails, and the lines are those of its decoded text. If it reports
  none, every candidate fails and the lines are those of the lossy decoding.
\<close>

theorem read_lines_first_success:
  assumes "read_lines dec decode_replace bs = (lines, enc)"
  shows "encodings_to_try = [CP949, EUC_KR, UTF8, UTF8_SIG, LATIN1, CP1252] \<and>
         (case enc of
            Some e \<Rightarrow>
              (\<exists>i < length encodings_to_try. encodings_to_try ! i = e \<and>
                 (\<forall>j < i. dec (encodings_to_try ! j) bs = None) \<and>
                 (\<exists>content. dec e bs = Some content \<and>
                    lines = stripped_lines (readlines (translate_newlines content))))
          | None \<Rightarrow>
              (\<forall>e \<in> set encodings_to_try. dec e bs = None) \<and>
              lines = stripped_lines (split_on LF (decode_replace bs)))"
proof (cases "try_encodings dec encodings_to_try bs")
  case None
  with assms have "enc = None" "lines = stripped_lines (split_on LF (decode_replace bs))"
    by (auto simp: read_lines_def)
  with None show ?thesis by (simp add: try_encodings_None) (simp add: encodings_to_try_def)
next
  case (Some r)
  obtain ls e where r: "r = (ls, e)" by (cases r)
  with Some assms have "enc = Some e" "lines = ls" by (auto simp: read_lines_def)
  with try_encodings_Some[OF Some[unfolded r]] show ?thesis
    by (simp add: encodings_to_try_def)
qed

text \<open>
  Two runs: bytes that only utf-8 and the later candidates decode (a stand-in codec
  table in which cp949 and euc-kr refuse everything), and a table in which every codec
  refuses, which takes the lossy branch.
\<close>

definition demo_codecs :: decoder where
  "demo_codecs encoding bs =
     (if encoding = CP949 \<or> encoding = EUC_KR then None else Some (map unat bs))"

theorem read_lines_first_success_witness:
  "read_lines demo_codecs (\<lambda>bs. map unat bs) [65, 9, 66, 13, 10, 32, 10, 49, 9, 50] =
     ([[65, 9, 66], [49, 9, 50]], Some UTF8) \<and>
   demo_codecs CP949 [65, 9, 66, 13, 10, 32, 10, 49, 9, 50] = None \<and>
   demo_codecs EUC_KR [65, 9, 66, 13, 10, 32, 10, 49, 9, 50] = None \<and>
   read_lines (\<lambda>encoding bs. None) (\<lambda>bs. map unat bs) [65, 10, 66] = ([[65], [66]], None)"
proof -
  have run1: "read_lines demo_codecs (\<lambda>bs. map unat bs) [65, 9, 66, 13, 10, 32, 10, 49, 9, 50] =
     ([[65, 9, 66], [49, 9, 50]], Some UTF8)"
    by (simp add: read_lines_def encodings_to_try_def demo_codecs_def stripped_lines_def
        strip_def lstrip_def rstrip_def py_isspace_def CR_def LF_def)
  have run2: "read_lines (\<lambda>encoding bs. None) (\<lambda>bs. map unat bs) [65, 10, 66] =
     ([[65], [66]], None)"
    by (simp add: read_lines_def encodings_to_try_def stripped_lines_def
        strip_def lstrip_def rstrip_def py_isspace_def CR_def LF_def)
  from read_lines_first_success[OF run1] read_lines_first_success[OF run2] run1 run2
  show ?thesis
    by (simp add: demo_codecs_def)
qed

text \<open>
  Claim C10. With Python's codecs, whatever the bytes of the file: latin1 is a candidate
  and decodes them, so the resolver always reports an encoding (the lossy branch is never
  taken), the encoding reported is one of the first five candidates, and it is never
  cp1252.
\<close>

theorem latin1_shadows_cp1252:
  "LATIN1 \<in> set encodings_to_try \<and> py_decode lib LATIN1 bs \<noteq> None \<and>
   (\<exists>lines e. read_lines (py_decode lib) decode_replace bs = (lines, Some e) \<and>
      e \<in> {CP949, EUC_KR, UTF8, UTF8_SIG, LATIN1} \<and> e \<in> set (take 5 encodings_to_try) \<and>
      e \<noteq> CP1252)"
proof -
  have "try_encodings (py_decode lib) encodings_to_try bs \<noteq> None"
    unfolding try_encodings_None by (simp add: encodings_to_try_def py_decode_def)
  then obtain r where "try_encodings (py_decode lib) encodings_to_try bs = Some r"
    by blast
  then obtain ls e where s: "try_encodings (py_decode lib) encodings_to_try bs = Some (ls, e)"
    by (cases r) blast
  from try_encodings_Some[OF s] obtain i where
    i: "i < length encodings_to_try" "encodings_to_try ! i = e"
       "\<forall>j < i. py_decode lib (encodings_to_try ! j) bs = None" by blast
  have "i \<le> 4"
  proof (rule ccontr)
    assume "\<not> i \<le> 4"
    then have "4 < i" by simp
    with i(3) have "py_decode lib (encodings_to_try ! 4) bs = None" by blast
    then show False by (simp add: encodings_to_try_def py_decode_def)
  qed
  then have "i = 0 \<or> i = 1 \<or> i = 2 \<or> i = 3 \<or> i = 4" by arith
  with i(2) have "e \<in> {CP949, EUC_KR, UTF8, UTF8_SIG, LATIN1}"
    by (auto simp: encodings_to_try_def)
  with s show ?thesis by (auto simp: read_lines_def py_decode_def encodings_to_try_def)
qed

section \<open>Proto Table Loader: \<open>load_file_fast\<close>, the parsing step\<close>

text \<open>
  \<^verbatim>\<open>while len(row) < len(self.headers): row.append('')\<close>
\<close>

function pad_row :: "nat \<Rightarrow> pystr list \<Rightarrow> pystr list" where
  "pad_row n row = (if length row < n then pad_row n (row @ [[]]) else row)"
  by pat_completeness auto
termination
  by (relation "measure (\<lambda>(n, row). n - length row)") auto

declare pad_row.simps [simp del]

datatype load_error = EmptyFile | LoadFailed py_error

text \<open>
  The lines are the stripped, non-empty lines of the file. No line: the warning
  \<open>File is empty\<close> and an early return. Otherwise the first line is the header and every
  other line a row, padded to the header's length.
\<close>

definition parse_lines :: "pystr list \<Rightarrow> load_error + (pystr list \<times> pystr list list)" where
  "parse_lines lines =
     (case lines of
        [] \<Rightarrow> Inl EmptyFile
      | l # ls \<Rightarrow>
          (let headers = split_on TAB l
           in Inr (headers, map (\<lambda>line. pad_row (length headers) (split_on TAB line)) ls)))"

section \<open>Padding of short rows\<close>

lemma pad_row_eq: "pad_row n row = row @ replicate (n - length row) []"
proof (induction n row rule: pad_row.induct)
  case (1 n row)
  show ?case
  proof (cases "length row < n")
    case True
    then have "n - length row = Suc (n - Suc (length row))" by simp
    with True 1 show ?thesis
      by (subst pad_row.simps) (simp add: replicate_append_same)
  next
    case False
    then show ?thesis by (subst pad_row.simps) simp
  qed
qed

definition demo_lines :: "pystr list" where
  "demo_lines =
     [join TAB [lit ''VNUM'', lit ''NAME'', lit ''EXP''],
      join TAB [lit ''101'', lit ''Wolf''],
      join TAB [lit ''102'', lit ''Bear'', lit ''7'', lit ''x'']]"

text \<open>
  Claim C2. When the parsing step of the loader returns a table with a header of \<open>N\<close>
  columns, the header is the first line split on tab and there is one row per further
  line. A line that splits into \<open>k < N\<close> fields gives a row of exactly \<open>N\<close> fields: the
  \<open>k\<close> parsed fields followed by \<open>N - k\<close> empty strings. A line with \<open>N\<close> fields or more
  gives its fields unchanged, so a longer row is never cut.
\<close>

theorem parse_lines_pads_short_rows:
  assumes "parse_lines lines = Inr (headers, data)"
  shows "headers = split_on TAB (lines ! 0) \<and> Suc (length data) = length lines \<and>
         (\<forall>i < length data.
            let fields = split_on TAB (lines ! Suc i); k = length fields; N = length headers
            in (k < N \<longrightarrow> length (data ! i) = N \<and> take k (data ! i) = fields \<and>
                             drop k (data ! i) = replicate (N - k) []) \<and>
               (N \<le> k \<longrightarrow> data ! i = fields))"
  using assms
  by (auto simp: parse_lines_def Let_def pad_row_eq split: list.splits)

theorem parse_lines_pads_short_rows_witness:
  "parse_lines demo_lines =
     Inr ([lit ''VNUM'', lit ''NAME'', lit ''EXP''],
          [[lit ''101'', lit ''Wolf'', []], [lit ''102'', lit ''Bear'', lit ''7'', lit ''x'']]) \<and>
   split_on TAB (demo_lines ! 1) = [lit ''101'', lit ''Wolf''] \<and>
   drop 2 [lit ''101'', lit ''Wolf'', []] = replicate (3 - 2) [] \<and>
   split_on TAB (demo_lines ! 2) = [lit ''102'', lit ''Bear'', lit ''7'', lit ''x'']"
proof -
  have run: "parse_lines demo_lines =
     Inr ([lit ''VNUM'', lit ''NAME'', lit ''EXP''],
          [[lit ''101'', lit ''Wolf'', []], [lit ''102'', lit ''Bear'', lit ''7'', lit ''x'']])"
    by (simp add: demo_lines_def parse_lines_def lit_def TAB_def pad_row_eq)
  from parse_lines_pads_short_rows[OF run] run show ?thesis
    by (simp add: demo_lines_def lit_def TAB_def Let_def All_less_Suc)
qed

section \<open>Row renderer: \<open>get_mob_name\<close> and \<open>setup_table\<close>\<close>

definition get_mob_name :: "(pystr \<rightharpoonup> pystr) \<Rightarrow> pystr \<Rightarrow> pystr \<Rightarrow> pystr" where
  "get_mob_name mob_names vnum original_name =
     (case mob_names vnum of
        Some name \<Rightarrow> name
      | None \<Rightarrow>
          if original_name \<noteq> [] \<and> original_name \<notin> set [lit ''??'', lit ''???'', lit ''????'']
          then original_name
          else lit ''Mob '' @ vnum)"

text \<open>
  The inner loop of \<open>setup_table\<close> over the cells of one row: \<open>col\<close> is the
  column of the first cell left, \<open>vnum\<close> the row's first cell (\<open>row_data[0]\<close>, which
  the loop never changes). It returns the cells as stored afterwards and the exception if
  one was raised: \<open>self.headers[col]\<close> is read at column 1 only, and raises
  \<open>IndexError\<close> when the header has a single column. The item created for a cell
  shows the very string that is stored (\<open>german_name\<close> at the name column,
  \<open>value\<close> elsewhere), so the stored cells are also the display texts.
\<close>

fun fill_cells ::
  "pystr list \<Rightarrow> (pystr \<rightharpoonup> pystr) \<Rightarrow> pystr \<Rightarrow> nat \<Rightarrow> pystr list \<Rightarrow> pystr list \<times> py_error option"
where
  "fill_cells headers mob_names vnum col [] = ([], None)"
| "fill_cells headers mob_names vnum col (val # rest) =
     (if col = 1 \<and> \<not> col < length headers then (val # rest, Some IndexError)
      else
        (let cell = (if col = 1 \<and> headers ! col = lit ''NAME''
                     then get_mob_name mob_names vnum val else val);
             (rest', err) = fill_cells headers mob_names vnum (Suc col) rest
         in (cell # rest', err)))"

definition fill_row :: "pystr list \<Rightarrow> (pystr \<rightharpoonup> pystr) \<Rightarrow> pystr list \<Rightarrow> pystr list \<times> py_error option" where
  "fill_row headers mob_names row_data =
     fill_cells headers mob_names (if length row_data > 0 then row_data ! 0 else []) 0 row_data"

text \<open>
  The outer loop over the rows: the stored rows afterwards and the exception that
  stopped the loop, if any (the rows after the failing one are not visited).
\<close>

fun fill_rows ::
  "pystr list \<Rightarrow> (pystr \<rightharpoonup> pystr) \<Rightarrow> pystr list list \<Rightarrow> pystr list list \<times> py_error option"
where
  "fill_rows headers mob_names [] = ([], None)"
| "fill_rows headers mob_names (row_data # rest) =
     (case fill_row headers mob_names row_data of
        (row', Some e) \<Rightarrow> (row' # rest, Some e)
      | (row', None) \<Rightarrow>
          (let (rest', err) = fill_rows headers mob_names rest
           in (row' # rest', err)))"

definition setup_table ::
  "pystr list \<Rightarrow> (pystr \<rightharpoonup> pystr) \<Rightarrow> pystr list list \<Rightarrow> pystr list list \<times> py_error option"
where
  "setup_table headers mob_names data = fill_rows headers mob_names data"


section \<open>Name resolution\<close>

lemma fill_cells_past_name:
  "2 \<le> col \<Longrightarrow> fill_cells headers m vnum col cells = (cells, None)"
  by (induction cells arbitrary: col) auto

lemma fill_row_short: "length row < 2 \<Longrightarrow> fill_row headers m row = (row, None)"
  by (cases row; cases "tl row") (auto simp: fill_row_def)

lemma fill_row_no_column:
  "\<not> 1 < length headers \<Longrightarrow> 2 \<le> length row \<Longrightarrow>
   fill_row headers m row = (row, Some IndexError)"
  by (cases row; cases "tl row") (auto simp: fill_row_def)

lemma fill_row_other_header:
  "1 < length headers \<Longrightarrow> headers ! 1 \<noteq> lit ''NAME'' \<Longrightarrow> fill_row headers m row = (row, None)"
  by (cases row; cases "tl row") (auto simp: fill_row_def fill_cells_past_name)

lemma fill_row_name:
  "1 < length headers \<Longrightarrow> headers ! 1 = lit ''NAME'' \<Longrightarrow> 2 \<le> length row \<Longrightarrow>
   fill_row headers m row = (row[1 := get_mob_name m (row ! 0) (row ! 1)], None)"
  by (cases row; cases "tl row") (auto simp: fill_row_def fill_cells_past_name)

lemma get_mob_name_idem:
  "get_mob_name m v (get_mob_name m v n) = get_mob_name m v n"
  by (auto simp: get_mob_name_def lit_def split: option.splits)

lemma fill_rows_name:
  "1 < length headers \<Longrightarrow> headers ! 1 = lit ''NAME'' \<Longrightarrow>
   fill_rows headers m data =
     (map (\<lambda>row. if 2 \<le> length row then row[1 := get_mob_name m (row ! 0) (row ! 1)] else row)
        data, None)"
  by (induction data) (auto simp: fill_row_name fill_row_short)

lemma fill_rows_other_header:
  "1 < length headers \<Longrightarrow> headers ! 1 \<noteq> lit ''NAME'' \<Longrightarrow>
   fill_rows headers m data = (data, None)"
  by (induction data) (auto simp: fill_row_other_header)

lemma fill_rows_no_column:
  "\<not> 1 < length headers \<Longrightarrow> fst (fill_rows headers m data) = data"
proof (induction data)
  case Nil
  then show ?case by simp
next
  case (Cons row data)
  show ?case
  proof (cases "2 \<le> length row")
    case True
    with Cons show ?thesis by (simp add: fill_row_no_column)
  next
    case False
    then have "fill_row headers m row = (row, None)" by (simp add: fill_row_short)
    with Cons show ?thesis by (cases "fill_rows headers m data") simp
  qed
qed

lemma fill_rows_idem:
  "fill_rows headers m (fst (fill_rows headers m data)) = fill_rows headers m data"
proof (cases "1 < length headers")
  case False
  then show ?thesis by (simp add: fill_rows_no_column)
next
  case True
  show ?thesis
  proof (cases "headers ! 1 = lit ''NAME''")
    case False
    with True show ?thesis by (simp add: fill_rows_other_header)
  next
    case n: True
    show ?thesis
      using True n by (simp add: fill_rows_name get_mob_name_idem)
  qed
qed

definition demo_names :: "pystr \<rightharpoonup> pystr" where
  "demo_names = [lit ''9001'' \<mapsto> lit ''H'' @ [246] @ lit ''llenwolf'']"

definition demo_data :: "pystr list list" where
  "demo_data = [[lit ''9001'', lit ''????''], [lit ''9999'', []], [lit ''101'', lit ''Wolf'']]"

text \<open>
  Claim C3. Let \<open>setup_table\<close> leave the rows \<open>data'\<close>. When the header has \<open>NAME\<close> at
  position 1, no exception is raised and every row with a name cell gets the resolved
  name stored at position 1, the rest of the row unchanged, where the resolved name
  (the value of \<open>get_mob_name\<close>, which is also the text displayed) is: the looked-up
  name if the row's id at position 0 is a key of the lookup; else the original name if
  it is non-empty and none of \<open>??\<close>, \<open>???\<close>, \<open>????\<close>; else \<open>Mob\<close>, a space and the id.
  When position 1 of the header is not \<open>NAME\<close> (or the header has no position 1), no
  row is altered.
\<close>

theorem setup_table_resolves_names:
  assumes "setup_table headers mob_names data = (data', err)"
  shows "(1 < length headers \<and> headers ! 1 = lit ''NAME'' \<longrightarrow>
            err = None \<and> length data' = length data \<and>
            (\<forall>i < length data.
               let row = data ! i; vnum = row ! 0; original_name = row ! 1;
                   resolved =
                     (case mob_names vnum of
                        Some name \<Rightarrow> name
                      | None \<Rightarrow>
                          if original_name \<noteq> [] \<and>
                             original_name \<notin> {lit ''??'', lit ''???'', lit ''????''}
                          then original_name
                          else lit ''Mob '' @ vnum)
               in if 2 \<le> length row
                  then get_mob_name mob_names vnum original_name = resolved \<and>
                       data' ! i = row[1 := resolved]
                  else data' ! i = row)) \<and>
         (\<not> (1 < length headers \<and> headers ! 1 = lit ''NAME'') \<longrightarrow> data' = data)"
proof (intro conjI impI)
  assume h: "1 < length headers \<and> headers ! 1 = lit ''NAME''"
  with assms have d: "data' = map (\<lambda>row. if 2 \<le> length row
      then row[1 := get_mob_name mob_names (row ! 0) (row ! 1)] else row) data"
    and e: "err = None"
    by (simp_all add: setup_table_def fill_rows_name)
  show "err = None" by (rule e)
  show "length data' = length data" by (simp add: d)
  show "\<forall>i < length data.
               let row = data ! i; vnum = row ! 0; original_name = row ! 1;
                   resolved =
                     (case mob_names vnum of
                        Some name \<Rightarrow> name
                      | None \<Rightarrow>
                          if original_name \<noteq> [] \<and>
                             original_name \<notin> {lit ''??'', lit ''???'', lit ''????''}
                          then original_name
                          else lit ''Mob '' @ vnum)
               in if 2 \<le> length row
                  then get_mob_name mob_names vnum original_name = resolved \<and>
                       data' ! i = row[1 := resolved]
                  else data' ! i = row"
    by (simp add: d Let_def get_mob_name_def)
next
  assume h: "\<not> (1 < length headers \<and> headers ! 1 = lit ''NAME'')"
  show "data' = data"
  proof (cases "1 < length headers")
    case True
    with h assms show ?thesis by (simp add: setup_table_def fill_rows_other_header)
  next
    case False
    from fill_rows_no_column[OF False, of mob_names data] assms show ?thesis
      by (simp add: setup_table_def)
  qed
qed

theorem setup_table_resolves_names_witness:
  "setup_table [lit ''VNUM'', lit ''NAME''] demo_names demo_data =
     ([[lit ''9001'', lit ''H'' @ [246] @ lit ''llenwolf''],
       [lit ''9999'', lit ''Mob 9999''],
       [lit ''101'', lit ''Wolf'']], None) \<and>
   1 < length [lit ''VNUM'', lit ''NAME''] \<and> [lit ''VNUM'', lit ''NAME''] ! 1 = lit ''NAME'' \<and>
   get_mob_name demo_names (lit ''9001'') (lit ''????'') = lit ''H'' @ [246] @ lit ''llenwolf'' \<and>
   get_mob_name demo_names (lit ''9999'') [] = lit ''Mob 9999'' \<and>
   get_mob_name demo_names (lit ''101'') (lit ''Wolf'') = lit ''Wolf''"
proof -
  have run: "setup_table [lit ''VNUM'', lit ''NAME''] demo_names demo_data =
     ([[lit ''9001'', lit ''H'' @ [246] @ lit ''llenwolf''],
       [lit ''9999'', lit ''Mob 9999''],
       [lit ''101'', lit ''Wolf'']], None)"
    by (simp add: setup_table_def fill_row_def get_mob_name_def demo_names_def demo_data_def
        lit_def)
  from setup_table_resolves_names[OF run] run show ?thesis
    by (simp add: demo_data_def demo_names_def lit_def Let_def All_less_Suc)
qed

text \<open>
  Claim C7. Name resolution is idempotent for a fixed lookup: running \<open>setup_table\<close> on
  the rows that a first run left gives the same stored rows (hence the same display
  names, which are the stored strings) and the same outcome as the first run.
\<close>

theorem setup_table_idempotent:
  "setup_table headers mob_names (fst (setup_table headers mob_names data)) =
     setup_table headers mob_names data"
  by (simp add: setup_table_def fill_rows_idem)

section \<open>The table widget\<close>

text \<open>
  The grid of the user interface, as far as the editor uses it: a number of rows and of
  columns, and for each position the text of its item, if it has one. \<open>item\<close> is
  \<open>self.table.item(row, col)\<close>, which is \<open>None\<close> outside the grid, and \<open>setItem\<close>
  stores an item at a position of the grid. The editor keeps \<open>columnCount\<close> equal to
  the length of the header (\<open>setup_table\<close> sets both), so the mass edit always calls
  \<open>setItem\<close> inside the grid.
\<close>

record table_widget =
  rowCount :: nat
  columnCount :: nat
  items :: "nat \<Rightarrow> nat \<Rightarrow> pystr option"

definition item :: "table_widget \<Rightarrow> nat \<Rightarrow> nat \<Rightarrow> pystr option" where
  "item t row col = (if row < rowCount t \<and> col < columnCount t then items t row col else None)"

definition setItem :: "table_widget \<Rightarrow> nat \<Rightarrow> nat \<Rightarrow> pystr \<Rightarrow> table_widget" where
  "setItem t row col s =
     (if row < rowCount t \<and> col < columnCount t
      then t\<lparr>items := (items t)(row := (items t row)(col := Some s))\<rparr>
      else t)"

text \<open>The rows that \<open>save_to_file\<close> collects from the grid: an absent item reads as the empty
  string.\<close>

definition current_data :: "table_widget \<Rightarrow> pystr list list" where
  "current_data t =
     map (\<lambda>row. map (\<lambda>col. case item t row col of Some s \<Rightarrow> s | None \<Rightarrow> []) [0..<columnCount t])
       [0..<rowCount t]"

section \<open>Character repair of the name file\<close>














section \<open>Persistence writer: \<open>save_to_file\<close>\<close>

text \<open>
  The time of the save is an input. \<open>strftime\<close> is \<^verbatim>\<open>strftime('%Y%m%d_%H%M%S')\<close> for
  years of four digits: each field in decimal, padded with zeros to its width.
\<close>

record datetime =
  year :: nat
  month :: nat
  day :: nat
  hour :: nat
  minute :: nat
  second :: nat

definition strftime :: "datetime \<Rightarrow> pystr" where
  "strftime now =
     zfill 4 (str_nat (year now)) @ zfill 2 (str_nat (month now)) @ zfill 2 (str_nat (day now)) @
     lit ''_'' @
     zfill 2 (str_nat (hour now)) @ zfill 2 (str_nat (minute now)) @ zfill 2 (str_nat (second now))"

text \<open>
  The UTF-8 encoder of the output file. A code point in the surrogate range raises
  \<open>UnicodeEncodeError\<close> (\<open>None\<close>).
\<close>

definition utf8_char :: "nat \<Rightarrow> nat list option" where
  "utf8_char c =
     (if c < 128 then Some [c]
      else if c < 2048 then Some [192 + c div 64, 128 + c mod 64]
      else if c < 65536 then
        (if 55296 \<le> c \<and> c \<le> 57343 then None
         else Some [224 + c div 4096, 128 + c div 64 mod 64, 128 + c mod 64])
      else if c < 1114112 then
        Some [240 + c div 262144, 128 + c div 4096 mod 64, 128 + c div 64 mod 64, 128 + c mod 64]
      else None)"

fun utf8_encode :: "pystr \<Rightarrow> byte list option" where
  "utf8_encode [] = Some []"
| "utf8_encode (c # cs) =
     (case utf8_char c of
        None \<Rightarrow> None
      | Some bs \<Rightarrow> (case utf8_encode cs of None \<Rightarrow> None | Some rest \<Rightarrow> Some (map of_nat bs @ rest)))"

text \<open>
  The file system: the content of each existing file, and the paths at which the system
  refuses to create or overwrite a file (no permission, read-only medium, full disk).
  \<open>copy2\<close> is \<open>shutil.copy2\<close>: it fails when the destination is refused, and then
  changes no file.
\<close>

record filesystem =
  files :: "pystr \<rightharpoonup> byte list"
  refuses :: "pystr \<Rightarrow> bool"

definition copy2 :: "filesystem \<Rightarrow> pystr \<Rightarrow> pystr \<Rightarrow> py_error + filesystem" where
  "copy2 fs src dst =
     (case files fs src of
        None \<Rightarrow> Inl OSError
      | Some content \<Rightarrow>
          if refuses fs dst then Inl OSError
          else Inr (fs\<lparr>files := (files fs)(dst \<mapsto> content)\<rparr>))"

text \<open>
  The \<open>with open(file_path, 'w', encoding='utf-8')\<close> block: opening fails when the path is
  refused; otherwise the file is emptied and the chunks are written in order. A chunk
  that cannot be encoded stops the writing with the earlier chunks in the file.
\<close>

fun write_lines :: "byte list \<Rightarrow> pystr list \<Rightarrow> byte list \<times> py_error option" where
  "write_lines written [] = (written, None)"
| "write_lines written (s # rest) =
     (case utf8_encode s of
        None \<Rightarrow> (written, Some UnicodeEncodeError)
      | Some bs \<Rightarrow> write_lines (written @ bs) rest)"

definition write_text_file :: "filesystem \<Rightarrow> pystr \<Rightarrow> pystr list \<Rightarrow> filesystem \<times> py_error option" where
  "write_text_file fs path chunks =
     (if refuses fs path then (fs, Some OSError)
      else (let (content, err) = write_lines [] chunks
            in (fs\<lparr>files := (files fs)(path \<mapsto> content)\<rparr>, err)))"

text \<open>What is written: the header joined with tabs, then every row, each with a newline.\<close>

definition file_chunks :: "pystr list \<Rightarrow> pystr list list \<Rightarrow> pystr list" where
  "file_chunks headers rows = (join TAB headers @ [LF]) # map (\<lambda>row_data. join TAB row_data @ [LF]) rows"

definition backup_path :: "pystr \<Rightarrow> datetime \<Rightarrow> pystr" where
  "backup_path file_path now = file_path @ lit ''.backup_'' @ strftime now"

text \<open>
  \<open>save_to_file\<close>: the file system afterwards and the exception caught by the handler,
  if any. An existing target is copied to the backup path first; an exception there
  skips the rest of the \<open>try\<close> block.
\<close>

definition save_to_file ::
  "datetime \<Rightarrow> filesystem \<Rightarrow> pystr \<Rightarrow> pystr list \<Rightarrow> table_widget \<Rightarrow> filesystem \<times> py_error option" where
  "save_to_file now fs file_path headers t =
     (case (if files fs file_path \<noteq> None
            then copy2 fs file_path (backup_path file_path now)
            else Inr fs) of
        Inl e \<Rightarrow> (fs, Some e)
      | Inr fs1 \<Rightarrow> write_text_file fs1 file_path (file_chunks headers (current_data t)))"


lemma length_zfill_str_nat2: "n < 100 \<Longrightarrow> length (zfill 2 (str_nat n)) = 2"
  using length_str_nat[of n 2] by (simp add: length_zfill)

lemma length_zfill_str_nat4: "n < 10000 \<Longrightarrow> length (zfill 4 (str_nat n)) = 4"
  using length_str_nat[of n 4] by (simp add: length_zfill)

lemma strftime_shape:
  assumes "year now < 10000" "month now < 100" "day now < 100"
    "hour now < 100" "minute now < 100" "second now < 100"
  shows "length (strftime now) = 15 \<and> strftime now ! 8 = 95"
  using assms
  by (simp add: strftime_def length_zfill_str_nat2 length_zfill_str_nat4 nth_append lit_def)

lemma backup_path_differs: "backup_path file_path now \<noteq> file_path"
  by (simp add: backup_path_def lit_def)

text \<open>
  Claim C6. When the target file exists, the save first copies it to the path made of the
  target path, \<open>.backup_\<close> and the time stamp of the form \<open>YYYYMMDD_HHMMSS\<close> (fifteen
  characters, an underscore in the middle). If that copy fails, the save stops with the
  error and the file system, the target included, is as before: nothing is written. If
  the copy succeeds, the backup holds the prior content of the target whatever happens
  next, and a save that ends without error leaves both the backup and a target.
\<close>

theorem save_backs_up_before_write:
  assumes "files fs file_path = Some old"
  shows "let bp = backup_path file_path now;
             (fs', err) = save_to_file now fs file_path headers t
         in bp = file_path @ lit ''.backup_'' @ strftime now \<and>
            (year now < 10000 \<and> month now < 100 \<and> day now < 100 \<and>
             hour now < 100 \<and> minute now < 100 \<and> second now < 100 \<longrightarrow>
               length (strftime now) = 15 \<and> strftime now ! 8 = 95) \<and>
            (refuses fs bp \<longrightarrow> err = Some OSError \<and> fs' = fs) \<and>
            (\<not> refuses fs bp \<longrightarrow> files fs' bp = Some old) \<and>
            (err = None \<longrightarrow> files fs' bp = Some old \<and> files fs' file_path \<noteq> None)"
proof -
  have shape: "year now < 10000 \<and> month now < 100 \<and> day now < 100 \<and>
             hour now < 100 \<and> minute now < 100 \<and> second now < 100 \<longrightarrow>
               length (strftime now) = 15 \<and> strftime now ! 8 = 95"
    using strftime_shape by blast
  show ?thesis
  proof (cases "refuses fs (backup_path file_path now)")
    case True
    with assms shape show ?thesis
      by (simp add: save_to_file_def copy2_def Let_def backup_path_def)
  next
    case False
    with assms shape backup_path_differs[of file_path now] show ?thesis
      by (auto simp: save_to_file_def copy2_def Let_def write_text_file_def backup_path_def
          split: prod.splits if_splits)
  qed
qed

definition demo_table :: table_widget where
  "demo_table = \<lparr>rowCount = 1, columnCount = 2,
     items = (\<lambda>row col. if row = 0 \<and> col = 0 then Some (lit ''101'')
                         else if row = 0 \<and> col = 1 then Some (lit ''Wolf'') else None)\<rparr>"

definition demo_now :: datetime where
  "demo_now = \<lparr>year = 2024, month = 3, day = 7, hour = 9, minute = 5, second = 1\<rparr>"

definition demo_fs :: "bool \<Rightarrow> filesystem" where
  "demo_fs locked = \<lparr>files = [lit ''mob_proto.txt'' \<mapsto> [79, 76, 68]],
     refuses = (\<lambda>path. locked \<and> path \<noteq> lit ''mob_proto.txt'')\<rparr>"



theorem save_backs_up_before_write_witness:
  "files (demo_fs True) (lit ''mob_proto.txt'') = Some [79, 76, 68] \<and>
   files (demo_fs False) (lit ''mob_proto.txt'') = Some [79, 76, 68] \<and>
   backup_path (lit ''mob_proto.txt'') demo_now = lit ''mob_proto.txt.backup_20240307_090501'' \<and>
   refuses (demo_fs True) (lit ''mob_proto.txt.backup_20240307_090501'') \<and>
   save_to_file demo_now (demo_fs True) (lit ''mob_proto.txt'') [lit ''VNUM'', lit ''NAME''] demo_table =
     (demo_fs True, Some OSError) \<and>
   \<not> refuses (demo_fs False) (lit ''mob_proto.txt.backup_20240307_090501'') \<and>
   snd (save_to_file demo_now (demo_fs False) (lit ''mob_proto.txt'') [lit ''VNUM'', lit ''NAME'']
          demo_table) = None \<and>
   files (fst (save_to_file demo_now (demo_fs False) (lit ''mob_proto.txt'')
                 [lit ''VNUM'', lit ''NAME''] demo_table))
     (lit ''mob_proto.txt.backup_20240307_090501'') = Some [79, 76, 68] \<and>
   files (fst (save_to_file demo_now (demo_fs False) (lit ''mob_proto.txt'')
                 [lit ''VNUM'', lit ''NAME''] demo_table))
     (lit ''mob_proto.txt'') =
       Some [86, 78, 85, 77, 9, 78, 65, 77, 69, 10, 49, 48, 49, 9, 87, 111, 108, 102, 10]"
proof -
  have old: "files (demo_fs b) (lit ''mob_proto.txt'') = Some [79, 76, 68]" for b
    by (simp add: demo_fs_def)
  have bp: "backup_path (lit ''mob_proto.txt'') demo_now = lit ''mob_proto.txt.backup_20240307_090501''"
    by (simp add: backup_path_def strftime_def demo_now_def zfill_def str_nat.simps lit_def)
  have written: "files (fst (save_to_file demo_now (demo_fs False) (lit ''mob_proto.txt'')
                 [lit ''VNUM'', lit ''NAME''] demo_table))
     (lit ''mob_proto.txt'') =
       Some [86, 78, 85, 77, 9, 78, 65, 77, 69, 10, 49, 48, 49, 9, 87, 111, 108, 102, 10]"
    and finished: "snd (save_to_file demo_now (demo_fs False) (lit ''mob_proto.txt'')
        [lit ''VNUM'', lit ''NAME''] demo_table) = None"
    by (simp_all add: save_to_file_def bp copy2_def demo_fs_def write_text_file_def file_chunks_def
        current_data_def demo_table_def item_def TAB_def LF_def utf8_char_def upt_rec lit_def)
  from save_backs_up_before_write[OF old[of True], of demo_now "[lit ''VNUM'', lit ''NAME'']" demo_table]
       save_backs_up_before_write[OF old[of False], of demo_now "[lit ''VNUM'', lit ''NAME'']" demo_table]
       old[of True] old[of False] written finished
  show ?thesis
    by (simp add: bp Let_def split: prod.splits) (simp add: demo_fs_def lit_def)
qed

section \<open>Python floats\<close>

text \<open>
  The mass edit computes with Python's \<open>float\<close>, an IEEE 754 double. A float is a
  finite value (a rational number that a double represents exactly), an infinity or
  NaN. The two zeros are not distinguished: \<open>+\<close>, \<open>*\<close> and \<open>int()\<close>, the only operations
  used, give the same results for both up to the sign of a zero.
\<close>

datatype pyfloat = Finite rat | PosInf | NegInf | NaN

text \<open>The number of binary digits of a positive integer.\<close>

function bitlen :: "int \<Rightarrow> int" where
  "bitlen n = (if n \<le> 0 then 0 else 1 + bitlen (n div 2))"
  by pat_completeness auto
termination
  by (relation "measure nat") auto

declare bitlen.simps [simp del]

text \<open>
  Rounding of the exact quotient \<open>n / d\<close> (with \<open>d > 0\<close>) to the nearest double, ties to
  even: \<open>e\<close> is the binary exponent of the quotient, \<open>p\<close> the exponent of the last
  place of its 53-bit significand (not below that of the subnormal numbers), \<open>m\<close> the
  significand rounded to an integer. A result of \<open>2 ^ 1024\<close> or more is an infinity.
\<close>

definition round_ratio :: "int \<Rightarrow> int \<Rightarrow> pyfloat" where
  "round_ratio n d =
     (if n = 0 then Finite 0
      else
        (let a = \<bar>n\<bar>;
             k = bitlen a - bitlen d;
             e = (if (if 0 \<le> k then d * 2 ^ nat k \<le> a else d \<le> a * 2 ^ nat (- k)) then k else k - 1);
             p = max (e - 52) (- 1074);
             num = (if 0 \<le> p then a else a * 2 ^ nat (- p));
             den = (if 0 \<le> p then d * 2 ^ nat p else d);
             q = num div den;
             r = num mod den;
             m = (if 2 * r < den then q else if den < 2 * r then q + 1
                  else if even q then q else q + 1);
             sm = (if 0 < n then m else - m)
         in if 1024 < bitlen m + p then (if 0 < n then PosInf else NegInf)
            else Finite (if 0 \<le> p then of_int (sm * 2 ^ nat p)
                         else of_int sm / of_int (2 ^ nat (- p)))))"

definition round_double :: "rat \<Rightarrow> pyfloat" where
  "round_double q = (let (n, d) = quotient_of q in round_ratio n d)"

text \<open>Multiplication and addition of floats: the exact result, rounded; the IEEE rules
  for infinities and NaN.\<close>

definition fsign :: "pyfloat \<Rightarrow> int" where
  "fsign x =
     (case x of
        Finite a \<Rightarrow> (if a = 0 then 0 else if 0 < a then 1 else - 1)
      | PosInf \<Rightarrow> 1 | NegInf \<Rightarrow> - 1 | NaN \<Rightarrow> 0)"

definition fmul :: "pyfloat \<Rightarrow> pyfloat \<Rightarrow> pyfloat" where
  "fmul x y =
     (if x = NaN \<or> y = NaN then NaN
      else case (x, y) of
        (Finite a, Finite b) \<Rightarrow> round_double (a * b)
      | _ \<Rightarrow> (let s = fsign x * fsign y
              in if s = 0 then NaN else if 0 < s then PosInf else NegInf))"

definition fadd :: "pyfloat \<Rightarrow> pyfloat \<Rightarrow> pyfloat" where
  "fadd x y =
     (if x = NaN \<or> y = NaN then NaN
      else case (x, y) of
        (Finite a, Finite b) \<Rightarrow> round_double (a + b)
      | (Finite a, _) \<Rightarrow> y
      | (_, Finite b) \<Rightarrow> x
      | _ \<Rightarrow> (if x = y then x else NaN))"

text \<open>
  \<open>int(x)\<close> truncates toward zero; it raises \<open>OverflowError\<close> for an infinity and
  \<open>ValueError\<close> for NaN. \<open>str\<close> of an integer is its decimal notation.
\<close>

definition py_trunc :: "rat \<Rightarrow> int" where
  "py_trunc q = (if 0 \<le> q then \<lfloor>q\<rfloor> else \<lceil>q\<rceil>)"

definition py_int :: "pyfloat \<Rightarrow> py_error + int" where
  "py_int x =
     (case x of
        Finite q \<Rightarrow> Inr (py_trunc q)
      | PosInf \<Rightarrow> Inl OverflowError
      | NegInf \<Rightarrow> Inl OverflowError
      | NaN \<Rightarrow> Inl ValueError)"

definition str_int :: "int \<Rightarrow> pystr" where
  "str_int n = (if n < 0 then 45 # str_nat (nat (- n)) else str_nat (nat n))"

text \<open>
  \<open>float(s)\<close> for a string: white space around the number is dropped (other Unicode
  spaces count as blanks), single underscores between digits are removed, and what is
  left must be, after an optional sign, \<open>inf\<close>, \<open>infinity\<close> or \<open>nan\<close> in any case, or
  decimal digits with an optional point and an optional exponent. \<open>None\<close> is
  \<open>ValueError\<close>. Python also reads decimal digits of other scripts; this parser knows
  the ASCII digits only, and the statements about all inputs below take the parser as a
  parameter.
\<close>

definition is_digit :: "nat \<Rightarrow> bool" where
  "is_digit c \<longleftrightarrow> 48 \<le> c \<and> c \<le> 57"

definition ascii_space :: "nat \<Rightarrow> bool" where
  "ascii_space c \<longleftrightarrow> (9 \<le> c \<and> c \<le> 13) \<or> c = 32"

definition to_ascii_space :: "nat \<Rightarrow> nat" where
  "to_ascii_space c = (if 127 \<le> c \<and> py_isspace c then 32 else c)"

fun strip_underscores :: "nat \<Rightarrow> pystr \<Rightarrow> pystr option" where
  "strip_underscores prev [] = (if prev = 95 then None else Some [])"
| "strip_underscores prev (c # cs) =
     (if c = 95 then (if is_digit prev then strip_underscores c cs else None)
      else if prev = 95 \<and> \<not> is_digit c then None
      else map_option ((#) c) (strip_underscores c cs))"

definition digits_value :: "pystr \<Rightarrow> nat" where
  "digits_value ds = foldl (\<lambda>acc c. 10 * acc + (c - 48)) 0 ds"

definition lower :: "pystr \<Rightarrow> pystr" where
  "lower s = map (\<lambda>c. if 65 \<le> c \<and> c \<le> 90 then c + 32 else c) s"

definition parse_exponent :: "pystr \<Rightarrow> int option" where
  "parse_exponent s =
     (case s of
        [] \<Rightarrow> Some 0
      | c # r \<Rightarrow>
          if c = 101 \<or> c = 69 then
            (let (neg, ds) = (case r of
                                [] \<Rightarrow> (False, r)
                              | d # r' \<Rightarrow> if d = 45 then (True, r') else if d = 43 then (False, r') else (False, r))
             in if ds \<noteq> [] \<and> list_all is_digit ds
                then Some (if neg then - int (digits_value ds) else int (digits_value ds))
                else None)
          else None)"

definition parse_decimal :: "bool \<Rightarrow> pystr \<Rightarrow> pyfloat option" where
  "parse_decimal neg s =
     (let ip = takeWhile is_digit s; r1 = dropWhile is_digit s;
          (fp, r2) = (case r1 of
                        [] \<Rightarrow> ([], r1)
                      | c # r \<Rightarrow> if c = 46 then (takeWhile is_digit r, dropWhile is_digit r)
                                else ([], r1))
      in if ip = [] \<and> fp = [] then None
         else case parse_exponent r2 of
                None \<Rightarrow> None
              | Some e \<Rightarrow>
                  (let mant = int (digits_value (ip @ fp));
                       signed = (if neg then - mant else mant);
                       scale = e - int (length fp)
                   in Some (if 0 \<le> scale then round_ratio (signed * 10 ^ nat scale) 1
                            else round_ratio signed (10 ^ nat (- scale)))))"

definition parse_unsigned :: "bool \<Rightarrow> pystr \<Rightarrow> pyfloat option" where
  "parse_unsigned neg s =
     (if lower s = lit ''inf'' \<or> lower s = lit ''infinity'' then Some (if neg then NegInf else PosInf)
      else if lower s = lit ''nan'' then Some NaN
      else parse_decimal neg s)"

definition py_float :: "pystr \<Rightarrow> pyfloat option" where
  "py_float s =
     (let t = rev (dropWhile ascii_space (rev (dropWhile ascii_space (map to_ascii_space s))))
      in case strip_underscores 0 t of
           None \<Rightarrow> None
         | Some u \<Rightarrow>
             (case u of
                [] \<Rightarrow> None
              | c # r \<Rightarrow> if c = 45 then parse_unsigned True r
                        else if c = 43 then parse_unsigned False r
                        else parse_unsigned False u))"


end
